theory Spec2Isabelle
  imports Main
begin

section \<open>The working clone of a git repository (git/working.go)\<close>

text \<open>
  The file \<^verbatim>\<open>git/working.go\<close> composes the package's low-level git operations
  (\<^verbatim>\<open>clone\<close>, \<^verbatim>\<open>fetch\<close>, \<^verbatim>\<open>commit\<close>, \<^verbatim>\<open>push\<close>, ...) into the transactions of a
  working clone. The low-level operations live in other files of the package, so the
  embedding takes them as parameters: a record \<open>env\<close> of functions over an arbitrary
  world \<open>'w\<close> (the file system, the local repositories, the remote). A theorem about
  \<open>Clone\<close>, \<open>CommitAndPush\<close> and the other methods that is stated for \<open>env\<close> then
  holds whatever these operations do.
  Each call of a low-level operation is also written to a trace, with its arguments and
  its result, so that statements about which operations ran, in which order and with
  which arguments are statements about a list.
\<close>

subsection \<open>Errors\<close>

text \<open>
  Go's \<^verbatim>\<open>error\<close> values. \<open>ErrReadOnly\<close> is declared at lines 10-12 of working.go.
  Modelled from the spec: \<open>ErrNoChanges\<close> (the "no changes" condition) and
  \<open>PushError\<close> (which "wraps the underlying push error together with the remote
  identity") are declared in other files of the package; working.go only uses them.
  \<open>OpError\<close> stands for every other error value a low-level operation may return,
  told apart by its message.
\<close>

datatype error =
    ErrReadOnly
  | ErrNoChanges
  | PushError string error
  | OpError string

subsection \<open>Data\<close>

record Remote =
  URL :: string

record Config =
  Branch :: string
  Paths :: "string list"
  NotesRef :: string
  UserName :: string
  UserEmail :: string
  SigningKey :: string
  SetAuthor :: bool
  SkipMessage :: string
  GitSecret :: bool

text \<open>
  \<open>Checkout\<close> embeds \<^verbatim>\<open>*Export\<close>, whose only content is the directory of the clone,
  read through the method \<^verbatim>\<open>Dir()\<close>: the field \<open>Dir\<close>.
\<close>

record Checkout =
  Dir :: string
  config :: Config
  upstream :: Remote
  realNotesRef :: string

text \<open>
  The fields of \<^verbatim>\<open>CommitAction\<close> and \<^verbatim>\<open>TagAction\<close> carry a prefix, since a
  record field is a constant of the theory and \<open>SigningKey\<close> is a field of \<open>Config\<close>.
\<close>

record CommitAction =
  commit_Author :: string
  commit_Message :: string
  commit_SigningKey :: string

record TagAction =
  tag_Tag :: string
  tag_Revision :: string
  tag_Message :: string
  tag_SigningKey :: string

text \<open>
  The mirror \<^verbatim>\<open>*Repo\<close>: what \<open>Clone\<close> reads of it is its origin (through
  \<^verbatim>\<open>r.Origin()\<close>), its directory \<^verbatim>\<open>r.dir\<close> and its lock \<^verbatim>\<open>r.mu\<close>; taking and
  releasing the lock are events of the trace.
\<close>

record Repo =
  origin :: Remote
  dir :: string

definition Origin :: "Repo \<Rightarrow> Remote" where
  "Origin r = origin r"

text \<open>A note is an opaque payload (\<^verbatim>\<open>interface{}\<close>); \<^verbatim>\<open>nil\<close> is \<open>None\<close>.\<close>

type_synonym payload = string

subsection \<open>The low-level operations, as parameters\<close>

text \<open>
  One field for each function of the package (and of Go's library) that working.go calls.
  An operation takes its arguments and the world and returns its result and the new
  world. A Go result \<^verbatim>\<open>error\<close> is \<open>error option\<close> (\<^verbatim>\<open>nil\<close> is \<open>None\<close>); a result
  \<^verbatim>\<open>(string, error)\<close> that the caller reads only after checking the error is
  \<open>error + string\<close>; \<^verbatim>\<open>refExists\<close>, \<^verbatim>\<open>getNote\<close> and \<^verbatim>\<open>changed\<close> return both
  components, because their callers read the value without looking at the error first.
  \<^verbatim>\<open>check\<close> returns a \<^verbatim>\<open>bool\<close> and nothing else: it is a query of the world.
  \<^verbatim>\<open>os.RemoveAll\<close> returns an error that \<open>Clone\<close> drops. The \<^verbatim>\<open>context\<close> argument
  (cancellation) is not modelled.
\<close>

record 'w env =
  op_workingClone :: "Repo \<Rightarrow> string \<Rightarrow> 'w \<Rightarrow> (error + string) \<times> 'w"
  op_config :: "string \<Rightarrow> string \<Rightarrow> string \<Rightarrow> 'w \<Rightarrow> error option \<times> 'w"
  op_getNotesRef :: "string \<Rightarrow> string \<Rightarrow> 'w \<Rightarrow> (error + string) \<times> 'w"
  op_fetch :: "string \<Rightarrow> string \<Rightarrow> string \<Rightarrow> 'w \<Rightarrow> error option \<times> 'w"
  op_secretUnseal :: "string \<Rightarrow> 'w \<Rightarrow> error option \<times> 'w"
  op_RemoveAll :: "string \<Rightarrow> 'w \<Rightarrow> error option \<times> 'w"
  op_Join :: "string \<Rightarrow> string \<Rightarrow> string"
  op_add :: "string \<Rightarrow> string \<Rightarrow> 'w \<Rightarrow> error option \<times> 'w"
  op_check :: "string \<Rightarrow> string list \<Rightarrow> bool \<Rightarrow> 'w \<Rightarrow> bool"
  op_commit :: "string \<Rightarrow> CommitAction \<Rightarrow> 'w \<Rightarrow> error option \<times> 'w"
  op_refRevision :: "string \<Rightarrow> string \<Rightarrow> 'w \<Rightarrow> (error + string) \<times> 'w"
  op_addNote :: "string \<Rightarrow> string \<Rightarrow> string \<Rightarrow> payload \<Rightarrow> 'w \<Rightarrow> error option \<times> 'w"
  op_refExists :: "string \<Rightarrow> string \<Rightarrow> 'w \<Rightarrow> (bool \<times> error option) \<times> 'w"
  op_push :: "string \<Rightarrow> string \<Rightarrow> string list \<Rightarrow> 'w \<Rightarrow> error option \<times> 'w"
  op_getNote :: "string \<Rightarrow> string \<Rightarrow> string \<Rightarrow> 'w \<Rightarrow> (bool \<times> error option \<times> payload option) \<times> 'w"
  op_moveTagAndPush :: "string \<Rightarrow> string \<Rightarrow> TagAction \<Rightarrow> 'w \<Rightarrow> error option \<times> 'w"
  op_changed :: "string \<Rightarrow> string \<Rightarrow> string list \<Rightarrow> 'w \<Rightarrow> (string list \<times> error option) \<times> 'w"
  op_noteRevList :: "string \<Rightarrow> string \<Rightarrow> 'w \<Rightarrow> (error + string set) \<times> 'w"
  op_checkout :: "string \<Rightarrow> string \<Rightarrow> 'w \<Rightarrow> error option \<times> 'w"

subsection \<open>The trace of low-level calls\<close>

datatype event =
    E_workingClone string string "error + string"
  | E_config string string string "error option"
  | E_getNotesRef string string "error + string"
  | E_RLock
  | E_RUnlock
  | E_fetch string string string "error option"
  | E_secretUnseal string "error option"
  | E_RemoveAll string
  | E_add string string "error option"
  | E_check string "string list" bool bool
  | E_commit string CommitAction "error option"
  | E_refRevision string string "error + string"
  | E_addNote string string string payload "error option"
  | E_refExists string string bool "error option"
  | E_push string string "string list" "error option"
  | E_getNote string string string bool "error option"
  | E_moveTagAndPush string string TagAction "error option"
  | E_changed string string "string list" "error option"
  | E_noteRevList string string "error option"
  | E_checkout string string "error option"

record 'w state =
  world :: 'w
  trace :: "event list"

definition log :: "event \<Rightarrow> 'w \<Rightarrow> 'w state \<Rightarrow> 'w state" where
  "log e w s = \<lparr>world = w, trace = trace s @ [e]\<rparr>"

text \<open>The low-level calls made between two states of one run.\<close>

definition events :: "'w state \<Rightarrow> 'w state \<Rightarrow> event list" where
  "events s s' = drop (length (trace s)) (trace s')"

text \<open>The error of a fallible result, as Go's \<^verbatim>\<open>err\<close>.\<close>

definition err_of :: "error + 'a \<Rightarrow> error option" where
  "err_of r = (case r of Inl e \<Rightarrow> Some e | Inr _ \<Rightarrow> None)"

text \<open>
  A call of a low-level operation, as working.go performs it: the operation runs on the
  world and the call is logged. The call of \<^verbatim>\<open>config\<close> is \<open>config_identity\<close> here,
  \<open>config\<close> being the field of \<open>Checkout\<close>.
\<close>

definition workingClone :: "'w env \<Rightarrow> Repo \<Rightarrow> string \<Rightarrow> 'w state \<Rightarrow> (error + string) \<times> 'w state" where
  "workingClone env r ref s =
     (case op_workingClone env r ref (world s) of
        (res, w) \<Rightarrow> (res, log (E_workingClone (dir r) ref res) w s))"

definition config_identity :: "'w env \<Rightarrow> string \<Rightarrow> string \<Rightarrow> string \<Rightarrow> 'w state \<Rightarrow> error option \<times> 'w state" where
  "config_identity env d user email s =
     (case op_config env d user email (world s) of
        (res, w) \<Rightarrow> (res, log (E_config d user email res) w s))"

definition getNotesRef :: "'w env \<Rightarrow> string \<Rightarrow> string \<Rightarrow> 'w state \<Rightarrow> (error + string) \<times> 'w state" where
  "getNotesRef env d ref s =
     (case op_getNotesRef env d ref (world s) of
        (res, w) \<Rightarrow> (res, log (E_getNotesRef d ref res) w s))"

definition RLock :: "'w state \<Rightarrow> 'w state" where
  "RLock s = log E_RLock (world s) s"

definition RUnlock :: "'w state \<Rightarrow> 'w state" where
  "RUnlock s = log E_RUnlock (world s) s"

definition fetch :: "'w env \<Rightarrow> string \<Rightarrow> string \<Rightarrow> string \<Rightarrow> 'w state \<Rightarrow> error option \<times> 'w state" where
  "fetch env d src refspec s =
     (case op_fetch env d src refspec (world s) of
        (res, w) \<Rightarrow> (res, log (E_fetch d src refspec res) w s))"

definition secretUnseal :: "'w env \<Rightarrow> string \<Rightarrow> 'w state \<Rightarrow> error option \<times> 'w state" where
  "secretUnseal env d s =
     (case op_secretUnseal env d (world s) of
        (res, w) \<Rightarrow> (res, log (E_secretUnseal d res) w s))"

text \<open>\<^verbatim>\<open>os.RemoveAll(repoDir)\<close> as a statement: its error is dropped.\<close>

definition RemoveAll :: "'w env \<Rightarrow> string \<Rightarrow> 'w state \<Rightarrow> 'w state" where
  "RemoveAll env d s =
     (case op_RemoveAll env d (world s) of
        (res, w) \<Rightarrow> log (E_RemoveAll d) w s)"

definition add :: "'w env \<Rightarrow> string \<Rightarrow> string \<Rightarrow> 'w state \<Rightarrow> error option \<times> 'w state" where
  "add env d path s =
     (case op_add env d path (world s) of
        (res, w) \<Rightarrow> (res, log (E_add d path res) w s))"

definition check :: "'w env \<Rightarrow> string \<Rightarrow> string list \<Rightarrow> bool \<Rightarrow> 'w state \<Rightarrow> bool \<times> 'w state" where
  "check env d subdirs checkUntracked s =
     (let res = op_check env d subdirs checkUntracked (world s)
      in (res, log (E_check d subdirs checkUntracked res) (world s) s))"

definition commit :: "'w env \<Rightarrow> string \<Rightarrow> CommitAction \<Rightarrow> 'w state \<Rightarrow> error option \<times> 'w state" where
  "commit env d action s =
     (case op_commit env d action (world s) of
        (res, w) \<Rightarrow> (res, log (E_commit d action res) w s))"

definition refRevision :: "'w env \<Rightarrow> string \<Rightarrow> string \<Rightarrow> 'w state \<Rightarrow> (error + string) \<times> 'w state" where
  "refRevision env d ref s =
     (case op_refRevision env d ref (world s) of
        (res, w) \<Rightarrow> (res, log (E_refRevision d ref res) w s))"

definition addNote :: "'w env \<Rightarrow> string \<Rightarrow> string \<Rightarrow> string \<Rightarrow> payload \<Rightarrow> 'w state \<Rightarrow> error option \<times> 'w state" where
  "addNote env d rv notesRef n s =
     (case op_addNote env d rv notesRef n (world s) of
        (res, w) \<Rightarrow> (res, log (E_addNote d rv notesRef n res) w s))"

definition refExists :: "'w env \<Rightarrow> string \<Rightarrow> string \<Rightarrow> 'w state \<Rightarrow> (bool \<times> error option) \<times> 'w state" where
  "refExists env d ref s =
     (case op_refExists env d ref (world s) of
        ((ok, err), w) \<Rightarrow> ((ok, err), log (E_refExists d ref ok err) w s))"

definition push :: "'w env \<Rightarrow> string \<Rightarrow> string \<Rightarrow> string list \<Rightarrow> 'w state \<Rightarrow> error option \<times> 'w state" where
  "push env d url refs s =
     (case op_push env d url refs (world s) of
        (res, w) \<Rightarrow> (res, log (E_push d url refs res) w s))"

definition getNote :: "'w env \<Rightarrow> string \<Rightarrow> string \<Rightarrow> string \<Rightarrow> 'w state \<Rightarrow> (bool \<times> error option \<times> payload option) \<times> 'w state" where
  "getNote env d notesRef rv s =
     (case op_getNote env d notesRef rv (world s) of
        ((ok, err, n), w) \<Rightarrow> ((ok, err, n), log (E_getNote d notesRef rv ok err) w s))"

definition moveTagAndPush :: "'w env \<Rightarrow> string \<Rightarrow> string \<Rightarrow> TagAction \<Rightarrow> 'w state \<Rightarrow> error option \<times> 'w state" where
  "moveTagAndPush env d url action s =
     (case op_moveTagAndPush env d url action (world s) of
        (res, w) \<Rightarrow> (res, log (E_moveTagAndPush d url action res) w s))"

definition changed :: "'w env \<Rightarrow> string \<Rightarrow> string \<Rightarrow> string list \<Rightarrow> 'w state \<Rightarrow> (string list \<times> error option) \<times> 'w state" where
  "changed env d ref subPaths s =
     (case op_changed env d ref subPaths (world s) of
        ((list, err), w) \<Rightarrow> ((list, err), log (E_changed d ref subPaths err) w s))"

definition noteRevList :: "'w env \<Rightarrow> string \<Rightarrow> string \<Rightarrow> 'w state \<Rightarrow> (error + string set) \<times> 'w state" where
  "noteRevList env d notesRef s =
     (case op_noteRevList env d notesRef (world s) of
        (res, w) \<Rightarrow> (res, log (E_noteRevList d notesRef (err_of res)) w s))"

definition checkout :: "'w env \<Rightarrow> string \<Rightarrow> string \<Rightarrow> 'w state \<Rightarrow> error option \<times> 'w state" where
  "checkout env d rv s =
     (case op_checkout env d rv (world s) of
        (res, w) \<Rightarrow> (res, log (E_checkout d rv res) w s))"

subsection \<open>Clone (lines 61-113)\<close>

text \<open>
  The refspec of the forced tag fetch: the Go raw string of line 89, whose first and last
  characters are single quotes (character \<open>0x27\<close>).
\<close>

definition tags_refspec :: string where
  "tags_refspec = CHR 0x27 # ''+refs/tags/*:refs/tags/*'' @ [CHR 0x27]"

definition Clone :: "'w env \<Rightarrow> Repo \<Rightarrow> Config \<Rightarrow> 'w state \<Rightarrow> (error + Checkout) \<times> 'w state" where
  "Clone env r conf s0 =
     (let upstream' = Origin r in
      case workingClone env r (Branch conf) s0 of
        (Inl err, s1) \<Rightarrow> (Inl err, s1)
      | (Inr repoDir, s1) \<Rightarrow>
     (case config_identity env repoDir (UserName conf) (UserEmail conf) s1 of
        (Some err, s2) \<Rightarrow> (Inl err, RemoveAll env repoDir s2)
      | (None, s2) \<Rightarrow>
     (case getNotesRef env repoDir (NotesRef conf) s2 of
        (Inl err, s3) \<Rightarrow> (Inl err, RemoveAll env repoDir s3)
      | (Inr realNotesRef', s3) \<Rightarrow>
     (case fetch env repoDir (dir r) tags_refspec (RLock s3) of
        (Some err, s4) \<Rightarrow> (Inl err, RUnlock (RemoveAll env repoDir s4))
      | (None, s4) \<Rightarrow>
     (case fetch env repoDir (dir r) (realNotesRef' @ '':'' @ realNotesRef') s4 of
        (Some err, s5) \<Rightarrow> (Inl err, RUnlock (RemoveAll env repoDir s5))
      | (None, s5) \<Rightarrow>
     (let s6 = RUnlock s5;
          c = \<lparr>Dir = repoDir, config = conf, upstream = upstream', realNotesRef = realNotesRef'\<rparr>
      in if GitSecret conf
         then (case secretUnseal env repoDir s6 of
                 (Some err, s7) \<Rightarrow> (Inl err, s7)
               | (None, s7) \<Rightarrow> (Inr c, s7))
         else (Inr c, s6)))))))"

subsection \<open>AbsolutePaths (lines 118-128)\<close>

text \<open>
  The loop \<^verbatim>\<open>for i, p := range xs { paths[i] = f(p) }\<close>: the elements of \<open>xs\<close> in
  order, the index counted up from \<open>i\<close>, each result stored at its index.
\<close>

fun store_each :: "(string \<Rightarrow> string) \<Rightarrow> string list \<Rightarrow> nat \<Rightarrow> string list \<Rightarrow> string list" where
  "store_each f [] i paths = paths"
| "store_each f (p # ps) i paths = store_each f ps (Suc i) (paths[i := f p])"

definition AbsolutePaths :: "'w env \<Rightarrow> Checkout \<Rightarrow> string list" where
  "AbsolutePaths env c =
     (if length (Paths (config c)) = 0 then [Dir c]
      else (let paths = replicate (length (Paths (config c))) []
            in store_each (op_Join env (Dir c)) (Paths (config c)) 0 paths))"

subsection \<open>HeadRevision and GetNote (lines 177-183)\<close>

definition HeadRevision :: "'w env \<Rightarrow> Checkout \<Rightarrow> 'w state \<Rightarrow> (error + string) \<times> 'w state" where
  "HeadRevision env c s = refRevision env (Dir c) ''HEAD'' s"

definition GetNote :: "'w env \<Rightarrow> Checkout \<Rightarrow> string \<Rightarrow> 'w state \<Rightarrow> (bool \<times> error option \<times> payload option) \<times> 'w state" where
  "GetNote env c rv s = getNote env (Dir c) (realNotesRef c) rv s"

subsection \<open>CommitAndPush (lines 132-174)\<close>

text \<open>
  The result is Go's \<^verbatim>\<open>error\<close>: \<open>None\<close> is \<^verbatim>\<open>nil\<close>. Every \<^verbatim>\<open>return\<close> of the source
  is a branch that ends with the state reached so far. The empty string is \<open>[]\<close>.
\<close>

definition CommitAndPush :: "'w env \<Rightarrow> Checkout \<Rightarrow> CommitAction \<Rightarrow> payload option \<Rightarrow> bool \<Rightarrow> 'w state \<Rightarrow> error option \<times> 'w state" where
  "CommitAndPush env c commitAction note' addUntracked s0 =
     (case (if addUntracked then add env (Dir c) ''.'' s0 else (None, s0)) of
        (Some err, s1) \<Rightarrow> (Some err, s1)
      | (None, s1) \<Rightarrow>
     (case check env (Dir c) (Paths (config c)) addUntracked s1 of
        (False, s2) \<Rightarrow> (Some ErrNoChanges, s2)
      | (True, s2) \<Rightarrow>
     (let commitAction1 = commitAction\<lparr>commit_Message := commit_Message commitAction @ SkipMessage (config c)\<rparr>;
          commitAction2 = (if commit_SigningKey commitAction1 = []
                           then commitAction1\<lparr>commit_SigningKey := SigningKey (config c)\<rparr>
                           else commitAction1)
      in case commit env (Dir c) commitAction2 s2 of
        (Some err, s3) \<Rightarrow> (Some err, s3)
      | (None, s3) \<Rightarrow>
     (case (case note' of
              None \<Rightarrow> (None, s3)
            | Some n \<Rightarrow>
                (case HeadRevision env c s3 of
                   (Inl err, s4) \<Rightarrow> (Some err, s4)
                 | (Inr rv, s4) \<Rightarrow> addNote env (Dir c) rv (NotesRef (config c)) n s4)) of
        (Some err, s5) \<Rightarrow> (Some err, s5)
      | (None, s5) \<Rightarrow>
     (let refs = [Branch (config c)] in
      case refExists env (Dir c) (realNotesRef c) s5 of
        ((ok, err), s6) \<Rightarrow>
     (case (if ok then Inr (refs @ [realNotesRef c])
            else (case err of Some e \<Rightarrow> Inl e | None \<Rightarrow> Inr refs)) of
        Inl e \<Rightarrow> (Some e, s6)
      | Inr refs' \<Rightarrow>
     (case push env (Dir c) (URL (upstream c)) refs' s6 of
        (Some err', s7) \<Rightarrow> (Some (PushError (URL (upstream c)) err'), s7)
      | (None, s7) \<Rightarrow> (None, s7))))))))"

subsection \<open>MoveTagAndPush (lines 185-190)\<close>


subsection \<open>ChangedFiles, NoteRevList, Checkout and Add (lines 193-213)\<close>





section \<open>An in-memory operation set\<close>

text \<open>
  Modelled from the spec: the low-level VCS operation set of sections 2 and 6 of the
  specification ("stateless functions that shell out to a single VCS command each",
  "working directory + arguments -> success/failure"), whose code is in other files of
  the package. This small in-memory version of it is one value of the parameter \<open>env\<close>:
  the theorems stated for every \<open>env\<close> are instantiated with it at concrete inputs, and
  the round trip of a note, which rests on how the note store reads the name of a ref,
  is proved on it. Its world holds the local directories, a script of the operations that
  are to fail (by name, with the error they return), the revision \<open>HEAD\<close> resolves to,
  the paths changed in the work tree and in the index, the notes, what was pushed and
  the tags.
\<close>

record gitw =
  dirs :: "string list"
  script :: "(string \<times> error) list"
  HEAD :: string
  dirty :: "string list"
  index :: "string list"
  noted :: "((string \<times> string) \<times> payload) list"
  pushed :: "(string \<times> string list) list"
  tags :: "(string \<times> string) list"

definition failure :: "gitw \<Rightarrow> string \<Rightarrow> error option" where
  "failure w name = map_of (script w) name"

text \<open>A path lies under a directory; \<^verbatim>\<open>.\<close> is the whole clone.\<close>

definition under :: "string \<Rightarrow> string \<Rightarrow> bool" where
  "under q p = (q = ''.'' \<or> take (length q) p = q)"

definition in_scope :: "string list \<Rightarrow> string \<Rightarrow> bool" where
  "in_scope subdirs p = (subdirs = [] \<or> list_ex (\<lambda>q. under q p) subdirs)"

text \<open>
  The name of a notes ref in full, as \<^verbatim>\<open>git notes --ref\<close> reads it: a name outside
  \<^verbatim>\<open>refs/notes/\<close> is taken relative to it.
\<close>

definition full_notes_ref :: "string \<Rightarrow> string" where
  "full_notes_ref ref =
     (if take 11 ref = ''refs/notes/'' then ref
      else if take 6 ref = ''notes/'' then ''refs/'' @ ref
      else ''refs/notes/'' @ ref)"

definition working_dir :: string where
  "working_dir = ''/tmp/flux-working''"

definition mem_workingClone :: "Repo \<Rightarrow> string \<Rightarrow> gitw \<Rightarrow> (error + string) \<times> gitw" where
  "mem_workingClone r ref w =
     (case failure w ''workingClone'' of
        Some e \<Rightarrow> (Inl e, w)
      | None \<Rightarrow> (Inr working_dir, w\<lparr>dirs := working_dir # dirs w\<rparr>))"

definition mem_config :: "string \<Rightarrow> string \<Rightarrow> string \<Rightarrow> gitw \<Rightarrow> error option \<times> gitw" where
  "mem_config d user email w = (failure w ''config'', w)"

definition mem_getNotesRef :: "string \<Rightarrow> string \<Rightarrow> gitw \<Rightarrow> (error + string) \<times> gitw" where
  "mem_getNotesRef d ref w =
     (case failure w ''getNotesRef'' of
        Some e \<Rightarrow> (Inl e, w)
      | None \<Rightarrow> (Inr (full_notes_ref ref), w))"

text \<open>A fetch fails when the script names its refspec.\<close>

definition mem_fetch :: "string \<Rightarrow> string \<Rightarrow> string \<Rightarrow> gitw \<Rightarrow> error option \<times> gitw" where
  "mem_fetch d src refspec w = (failure w (''fetch '' @ refspec), w)"

definition mem_secretUnseal :: "string \<Rightarrow> gitw \<Rightarrow> error option \<times> gitw" where
  "mem_secretUnseal d w = (failure w ''secretUnseal'', w)"

definition mem_RemoveAll :: "string \<Rightarrow> gitw \<Rightarrow> error option \<times> gitw" where
  "mem_RemoveAll d w = (None, w\<lparr>dirs := removeAll d (dirs w)\<rparr>)"

text \<open>
  \<^verbatim>\<open>filepath.Join\<close> of Go's library, for slash-separated paths: from the first element
  that is not empty on, the elements are joined with a slash and the result is cleaned
  as \<^verbatim>\<open>filepath.Clean\<close> does. Cleaning drops empty elements and \<^verbatim>\<open>.\<close>, lets
  \<^verbatim>\<open>..\<close> take away the element before it (at the root it is dropped, at the start
  of a relative path it stays), keeps the leading slash of a rooted path, and gives
  \<^verbatim>\<open>.\<close> for an empty result.
\<close>

fun split_slash :: "string \<Rightarrow> string list" where
  "split_slash [] = [[]]"
| "split_slash (c # cs) =
     (if c = CHR ''/'' then [] # split_slash cs
      else (case split_slash cs of [] \<Rightarrow> [[c]] | x # xs \<Rightarrow> (c # x) # xs))"

text \<open>The elements still to read, and the elements kept so far, the last one first.\<close>

fun clean_elems :: "bool \<Rightarrow> string list \<Rightarrow> string list \<Rightarrow> string list" where
  "clean_elems rooted [] kept = rev kept"
| "clean_elems rooted (e # es) kept =
     (if e = [] \<or> e = ''.'' then clean_elems rooted es kept
      else if e = ''..'' then
        (case kept of
           [] \<Rightarrow> clean_elems rooted es (if rooted then [] else [e])
         | k # ks \<Rightarrow>
             if k \<noteq> ''..'' then clean_elems rooted es ks
             else clean_elems rooted es (if rooted then kept else e # kept))
      else clean_elems rooted es (e # kept))"

fun join_slash :: "string list \<Rightarrow> string" where
  "join_slash [] = []"
| "join_slash [x] = x"
| "join_slash (x # y # ys) = x @ ''/'' @ join_slash (y # ys)"

definition Clean :: "string \<Rightarrow> string" where
  "Clean p =
     (let rooted = (case p of [] \<Rightarrow> False | c # cs \<Rightarrow> c = CHR ''/'');
          cleaned = (if rooted then ''/'' else []) @
                    join_slash (clean_elems rooted (split_slash p) [])
      in if cleaned = [] then ''.'' else cleaned)"

definition mem_Join :: "string \<Rightarrow> string \<Rightarrow> string" where
  "mem_Join d p =
     (if d \<noteq> [] then Clean (d @ ''/'' @ p) else if p \<noteq> [] then Clean p else [])"

text \<open>
  Staging a path makes the index agree with the work tree under that path: what is
  changed there is staged, and what was staged there and is no longer changed is not.
\<close>

definition mem_add :: "string \<Rightarrow> string \<Rightarrow> gitw \<Rightarrow> error option \<times> gitw" where
  "mem_add d path w =
     (case failure w ''add'' of
        Some e \<Rightarrow> (Some e, w)
      | None \<Rightarrow>
          (None, w\<lparr>index := filter (\<lambda>p. \<not> under path p) (index w) @ filter (under path) (dirty w)\<rparr>))"

text \<open>
  Whether there are changes among the given paths (anywhere, when there are none): in
  the index when untracked files were staged, in the work tree otherwise.
\<close>

definition mem_check :: "string \<Rightarrow> string list \<Rightarrow> bool \<Rightarrow> gitw \<Rightarrow> bool" where
  "mem_check d subdirs checkUntracked w =
     list_ex (in_scope subdirs) (if checkUntracked then index w else dirty w)"

text \<open>
  A commit gets a revision made of its message and its parent's revision, and leaves
  nothing changed behind.
\<close>

definition mem_commit :: "string \<Rightarrow> CommitAction \<Rightarrow> gitw \<Rightarrow> error option \<times> gitw" where
  "mem_commit d action w =
     (case failure w ''commit'' of
        Some e \<Rightarrow> (Some e, w)
      | None \<Rightarrow> (None, w\<lparr>HEAD := commit_Message action @ ''^'' @ HEAD w, dirty := [], index := []\<rparr>))"

definition mem_refRevision :: "string \<Rightarrow> string \<Rightarrow> gitw \<Rightarrow> (error + string) \<times> gitw" where
  "mem_refRevision d ref w =
     (case failure w ''refRevision'' of
        Some e \<Rightarrow> (Inl e, w)
      | None \<Rightarrow> (if ref = ''HEAD'' then Inr (HEAD w) else Inl (OpError ''unknown revision''), w))"

definition mem_addNote :: "string \<Rightarrow> string \<Rightarrow> string \<Rightarrow> payload \<Rightarrow> gitw \<Rightarrow> error option \<times> gitw" where
  "mem_addNote d rv notesRef n w =
     (case failure w ''addNote'' of
        Some e \<Rightarrow> (Some e, w)
      | None \<Rightarrow> (None, w\<lparr>noted := ((full_notes_ref notesRef, rv), n) # noted w\<rparr>))"

text \<open>A notes ref exists locally once a note is stored under it.\<close>

definition mem_refExists :: "string \<Rightarrow> string \<Rightarrow> gitw \<Rightarrow> (bool \<times> error option) \<times> gitw" where
  "mem_refExists d ref w =
     (case failure w ''refExists'' of
        Some e \<Rightarrow> ((False, Some e), w)
      | None \<Rightarrow> ((list_ex (\<lambda>((r, rv), n). r = ref) (noted w), None), w))"

definition mem_push :: "string \<Rightarrow> string \<Rightarrow> string list \<Rightarrow> gitw \<Rightarrow> error option \<times> gitw" where
  "mem_push d url refs w =
     (case failure w ''push'' of
        Some e \<Rightarrow> (Some e, w)
      | None \<Rightarrow> (None, w\<lparr>pushed := pushed w @ [(url, refs)]\<rparr>))"

text \<open>Reading a note of the in-memory store cannot fail: the note is there or not.\<close>

definition mem_getNote :: "string \<Rightarrow> string \<Rightarrow> string \<Rightarrow> gitw \<Rightarrow> (bool \<times> error option \<times> payload option) \<times> gitw" where
  "mem_getNote d notesRef rv w =
     (case map_of (noted w) (full_notes_ref notesRef, rv) of
        None \<Rightarrow> ((False, None, None), w)
      | Some n \<Rightarrow> ((True, None, Some n), w))"

definition mem_moveTagAndPush :: "string \<Rightarrow> string \<Rightarrow> TagAction \<Rightarrow> gitw \<Rightarrow> error option \<times> gitw" where
  "mem_moveTagAndPush d url action w =
     (case failure w ''moveTagAndPush'' of
        Some e \<Rightarrow> (Some e, w)
      | None \<Rightarrow>
          (None, w\<lparr>tags := (tag_Tag action, tag_Revision action) # tags w,
                   pushed := pushed w @ [(url, [''refs/tags/'' @ tag_Tag action])]\<rparr>))"

definition mem_changed :: "string \<Rightarrow> string \<Rightarrow> string list \<Rightarrow> gitw \<Rightarrow> (string list \<times> error option) \<times> gitw" where
  "mem_changed d ref subPaths w =
     (case failure w ''changed'' of
        Some e \<Rightarrow> (([], Some e), w)
      | None \<Rightarrow> ((filter (in_scope subPaths) (dirty w), None), w))"

definition mem_noteRevList :: "string \<Rightarrow> string \<Rightarrow> gitw \<Rightarrow> (error + string set) \<times> gitw" where
  "mem_noteRevList d notesRef w =
     (case failure w ''noteRevList'' of
        Some e \<Rightarrow> (Inl e, w)
      | None \<Rightarrow>
          (Inr (set (map (\<lambda>((r, rv), n). rv)
                  (filter (\<lambda>((r, rv), n). r = full_notes_ref notesRef) (noted w)))), w))"

definition mem_checkout :: "string \<Rightarrow> string \<Rightarrow> gitw \<Rightarrow> error option \<times> gitw" where
  "mem_checkout d rv w =
     (case failure w ''checkout'' of
        Some e \<Rightarrow> (Some e, w)
      | None \<Rightarrow> (None, w\<lparr>HEAD := rv\<rparr>))"

definition mem_env :: "gitw env" where
  "mem_env =
     \<lparr>op_workingClone = mem_workingClone, op_config = mem_config,
      op_getNotesRef = mem_getNotesRef, op_fetch = mem_fetch,
      op_secretUnseal = mem_secretUnseal, op_RemoveAll = mem_RemoveAll,
      op_Join = mem_Join, op_add = mem_add, op_check = mem_check,
      op_commit = mem_commit, op_refRevision = mem_refRevision,
      op_addNote = mem_addNote, op_refExists = mem_refExists, op_push = mem_push,
      op_getNote = mem_getNote, op_moveTagAndPush = mem_moveTagAndPush,
      op_changed = mem_changed, op_noteRevList = mem_noteRevList,
      op_checkout = mem_checkout\<rparr>"

text \<open>A fresh machine: nothing on disk, nothing scripted to fail.\<close>

definition world0 :: gitw where
  "world0 =
     \<lparr>dirs = [], script = [], HEAD = ''r0'', dirty = [], index = [], noted = [],
      pushed = [], tags = []\<rparr>"

definition start :: "'w \<Rightarrow> 'w state" where
  "start w = \<lparr>world = w, trace = []\<rparr>"

text \<open>The mirror, a configuration and a working clone used at the concrete inputs.\<close>

definition repo0 :: Repo where
  "repo0 = \<lparr>origin = \<lparr>URL = ''git@example.com:org/repo''\<rparr>, dir = ''/var/mirror''\<rparr>"

definition conf0 :: Config where
  "conf0 =
     \<lparr>Branch = ''master'', Paths = [], NotesRef = ''flux'', UserName = ''flux'',
      UserEmail = ''flux@example.com'', SigningKey = ''KEY0'', SetAuthor = False,
      SkipMessage = '' [ci skip]'', GitSecret = False\<rparr>"

definition checkout0 :: Checkout where
  "checkout0 =
     \<lparr>Dir = working_dir, config = conf0, upstream = origin repo0,
      realNotesRef = ''refs/notes/flux''\<rparr>"

definition action0 :: CommitAction where
  "action0 = \<lparr>commit_Author = [], commit_Message = ''Release v2'', commit_SigningKey = []\<rparr>"


text \<open>A machine that holds the working clone, with one changed file in its work tree.\<close>

definition world1 :: gitw where
  "world1 = world0\<lparr>dirs := [working_dir], dirty := [''deploy.yaml'']\<rparr>"

text \<open>
  The same machine with a change that was staged and then undone in the work tree: the
  index differs from \<open>HEAD\<close>, the work tree does not.
\<close>

definition world2 :: gitw where
  "world2 = world0\<lparr>dirs := [working_dir], index := [''deploy.yaml'']\<rparr>"

text \<open>Machines on which one operation fails.\<close>

definition world_sealed :: gitw where
  "world_sealed = world0\<lparr>script := [(''secretUnseal'', OpError ''gpg: decryption failed'')]\<rparr>"

definition world_offline :: gitw where
  "world_offline = world1\<lparr>script := [(''push'', OpError ''connection refused'')]\<rparr>"

definition world_badref :: gitw where
  "world_badref = world1\<lparr>script := [(''refExists'', OpError ''fatal: bad object'')]\<rparr>"


definition conf_secret :: Config where
  "conf_secret = conf0\<lparr>GitSecret := True\<rparr>"

text \<open>The revision of the commit made on \<open>world1\<close>, and the action that reaches \<^verbatim>\<open>commit\<close>.\<close>

definition rev1 :: string where
  "rev1 = ''Release v2 [ci skip]^r0''"

definition signed0 :: CommitAction where
  "signed0 =
     \<lparr>commit_Author = [], commit_Message = ''Release v2 [ci skip]'',
      commit_SigningKey = ''KEY0''\<rparr>"

text \<open>The runs on the in-memory operation set that the statements below are tried on.\<close>

definition clone_run :: "(error + Checkout) \<times> gitw state" where
  "clone_run = Clone mem_env repo0 conf0 (start world0)"

definition sealed_run :: "(error + Checkout) \<times> gitw state" where
  "sealed_run = Clone mem_env repo0 conf_secret (start world_sealed)"

definition noted_run :: "error option \<times> gitw state" where
  "noted_run = CommitAndPush mem_env checkout0 action0 (Some ''release-2'') False (start world1)"

definition plain_run :: "error option \<times> gitw state" where
  "plain_run = CommitAndPush mem_env checkout0 action0 None False (start world1)"

definition staged_run :: "error option \<times> gitw state" where
  "staged_run = CommitAndPush mem_env checkout0 action0 None True (start world2)"

definition offline_run :: "error option \<times> gitw state" where
  "offline_run = CommitAndPush mem_env checkout0 action0 (Some ''release-2'') False (start world_offline)"

definition badref_run :: "error option \<times> gitw state" where
  "badref_run = CommitAndPush mem_env checkout0 action0 (Some ''release-2'') False (start world_badref)"


section \<open>Vocabulary of the statements\<close>

text \<open>
  The call that stages everything, as the trace shows it when \<open>CommitAndPush\<close> was asked
  to add untracked files and the staging succeeded; and the world that staging leaves.
\<close>

definition staging :: "Checkout \<Rightarrow> bool \<Rightarrow> event list" where
  "staging c addUntracked = (if addUntracked then [E_add (Dir c) ''.'' None] else [])"

definition staged_world :: "'w env \<Rightarrow> Checkout \<Rightarrow> bool \<Rightarrow> 'w \<Rightarrow> 'w" where
  "staged_world env c addUntracked w =
     (if addUntracked then snd (op_add env (Dir c) ''.'' w) else w)"

text \<open>
  The commit action that reaches \<^verbatim>\<open>commit\<close>: the message with the configured suffix,
  the signing key of the caller if there is one and the configured key otherwise.
\<close>

definition effective :: "Checkout \<Rightarrow> CommitAction \<Rightarrow> CommitAction" where
  "effective c a =
     a\<lparr>commit_Message := commit_Message a @ SkipMessage (config c),
       commit_SigningKey := (if commit_SigningKey a = [] then SigningKey (config c)
                             else commit_SigningKey a)\<rparr>"

text \<open>
  The worlds along a run of \<open>CommitAndPush\<close> in which staging, commit and note write
  succeed, each computed from the world of the start by the operations themselves
  (\<^verbatim>\<open>check\<close> is a query and changes nothing): the world that the commit leaves, and
  the world that the note write leaves, in which the push step starts.
\<close>

definition committed_world :: "'w env \<Rightarrow> Checkout \<Rightarrow> CommitAction \<Rightarrow> bool \<Rightarrow> 'w \<Rightarrow> 'w" where
  "committed_world env c a addUntracked w =
     snd (op_commit env (Dir c) (effective c a) (staged_world env c addUntracked w))"

definition noted_world ::
    "'w env \<Rightarrow> Checkout \<Rightarrow> CommitAction \<Rightarrow> payload option \<Rightarrow> bool \<Rightarrow> 'w \<Rightarrow> 'w" where
  "noted_world env c a nt addUntracked w =
     (let w3 = committed_world env c a addUntracked w
      in case nt of
           None \<Rightarrow> w3
         | Some n \<Rightarrow>
             (case op_refRevision env (Dir c) ''HEAD'' w3 of
                (Inl e, w4) \<Rightarrow> w4
              | (Inr rv, w4) \<Rightarrow> snd (op_addNote env (Dir c) rv (NotesRef (config c)) n w4)))"

text \<open>The two calls that write a note, both successful; none without a payload.\<close>

definition noting :: "Checkout \<Rightarrow> payload option \<Rightarrow> string \<Rightarrow> event list" where
  "noting c nt rv =
     (case nt of
        None \<Rightarrow> []
      | Some n \<Rightarrow>
          [E_refRevision (Dir c) ''HEAD'' (Inr rv),
           E_addNote (Dir c) rv (NotesRef (config c)) n None])"

fun is_fetch :: "event \<Rightarrow> bool" where
  "is_fetch (E_fetch d src refspec res) = True"
| "is_fetch _ = False"

fun is_push :: "event \<Rightarrow> bool" where
  "is_push (E_push d url refs res) = True"
| "is_push _ = False"





section \<open>The calls and their traces\<close>

lemma trace_log [simp]: "trace (log e w s) = trace s @ [e]"
  by (simp add: log_def)

lemma world_log [simp]: "world (log e w s) = w"
  by (simp add: log_def)

lemma events_append [simp]: "trace s' = trace s @ evs \<Longrightarrow> events s s' = evs"
  by (simp add: events_def)

lemma events_same [simp]: "events s s = []"
  by (simp add: events_def)

lemma events_start [simp]: "events (start w) s' = trace s'"
  by (simp add: events_def start_def)

lemma workingClone_run:
  assumes "workingClone env r ref s = (res, s1)"
  shows "trace s1 = trace s @ [E_workingClone (dir r) ref res]" and "op_workingClone env r ref (world s) = (res, world s1)"
  using assms by (auto simp: workingClone_def split: prod.splits)

lemma config_identity_run:
  assumes "config_identity env d user email s = (res, s1)"
  shows "trace s1 = trace s @ [E_config d user email res]" and "op_config env d user email (world s) = (res, world s1)"
  using assms by (auto simp: config_identity_def split: prod.splits)

lemma getNotesRef_run:
  assumes "getNotesRef env d ref s = (res, s1)"
  shows "trace s1 = trace s @ [E_getNotesRef d ref res]" and "op_getNotesRef env d ref (world s) = (res, world s1)"
  using assms by (auto simp: getNotesRef_def split: prod.splits)

lemma fetch_run:
  assumes "fetch env d src refspec s = (res, s1)"
  shows "trace s1 = trace s @ [E_fetch d src refspec res]" and "op_fetch env d src refspec (world s) = (res, world s1)"
  using assms by (auto simp: fetch_def split: prod.splits)

lemma secretUnseal_run:
  assumes "secretUnseal env d s = (res, s1)"
  shows "trace s1 = trace s @ [E_secretUnseal d res]" and "op_secretUnseal env d (world s) = (res, world s1)"
  using assms by (auto simp: secretUnseal_def split: prod.splits)

lemma add_run:
  assumes "add env d path s = (res, s1)"
  shows "trace s1 = trace s @ [E_add d path res]" and "op_add env d path (world s) = (res, world s1)"
  using assms by (auto simp: add_def split: prod.splits)

lemma commit_run:
  assumes "commit env d action s = (res, s1)"
  shows "trace s1 = trace s @ [E_commit d action res]" and "op_commit env d action (world s) = (res, world s1)"
  using assms by (auto simp: commit_def split: prod.splits)

lemma refRevision_run:
  assumes "refRevision env d ref s = (res, s1)"
  shows "trace s1 = trace s @ [E_refRevision d ref res]" and "op_refRevision env d ref (world s) = (res, world s1)"
  using assms by (auto simp: refRevision_def split: prod.splits)

lemma addNote_run:
  assumes "addNote env d rv notesRef n s = (res, s1)"
  shows "trace s1 = trace s @ [E_addNote d rv notesRef n res]" and "op_addNote env d rv notesRef n (world s) = (res, world s1)"
  using assms by (auto simp: addNote_def split: prod.splits)

lemma push_run:
  assumes "push env d url refs s = (res, s1)"
  shows "trace s1 = trace s @ [E_push d url refs res]" and "op_push env d url refs (world s) = (res, world s1)"
  using assms by (auto simp: push_def split: prod.splits)



lemma refExists_run:
  assumes "refExists env d ref s = (res, s1)"
  shows "trace s1 = trace s @ [E_refExists d ref (fst res) (snd res)]" and "op_refExists env d ref (world s) = (res, world s1)"
  using assms by (auto simp: refExists_def split: prod.splits)

lemma check_run:
  assumes "check env d ps u s = (res, s1)"
  shows "trace s1 = trace s @ [E_check d ps u res]" and "world s1 = world s"
    and "res = op_check env d ps u (world s)"
  using assms by (auto simp: check_def Let_def)




lemma RemoveAll_run: "trace (RemoveAll env d s) = trace s @ [E_RemoveAll d]"
  by (simp add: RemoveAll_def split: prod.splits)

lemma RLock_run: "trace (RLock s) = trace s @ [E_RLock]"
  by (simp add: RLock_def)

lemma RUnlock_run: "trace (RUnlock s) = trace s @ [E_RUnlock]"
  by (simp add: RUnlock_def)

section \<open>The paths through Clone and CommitAndPush\<close>

text \<open>
  Every run of \<open>Clone\<close> takes one of seven paths, told apart by the first call that
  fails; each path fixes the result and the calls made, in order.
\<close>

lemma Clone_cases [consumes 1, case_names clone_failed config_failed notes_ref_failed
    tags_failed notes_failed unseal_failed cloned]:
  assumes run: "Clone env r conf s = (res, s')"
  obtains
    (clone_failed) e where "res = Inl e"
      and "events s s' = [E_workingClone (dir r) (Branch conf) (Inl e)]"
  | (config_failed) d e where "res = Inl e"
      and "events s s' =
          [E_workingClone (dir r) (Branch conf) (Inr d),
           E_config d (UserName conf) (UserEmail conf) (Some e), E_RemoveAll d]"
  | (notes_ref_failed) d e where "res = Inl e"
      and "events s s' =
          [E_workingClone (dir r) (Branch conf) (Inr d),
           E_config d (UserName conf) (UserEmail conf) None,
           E_getNotesRef d (NotesRef conf) (Inl e), E_RemoveAll d]"
  | (tags_failed) d n e where "res = Inl e"
      and "events s s' =
          [E_workingClone (dir r) (Branch conf) (Inr d),
           E_config d (UserName conf) (UserEmail conf) None,
           E_getNotesRef d (NotesRef conf) (Inr n), E_RLock,
           E_fetch d (dir r) tags_refspec (Some e), E_RemoveAll d, E_RUnlock]"
  | (notes_failed) d n e where "res = Inl e"
      and "events s s' =
          [E_workingClone (dir r) (Branch conf) (Inr d),
           E_config d (UserName conf) (UserEmail conf) None,
           E_getNotesRef d (NotesRef conf) (Inr n), E_RLock,
           E_fetch d (dir r) tags_refspec None,
           E_fetch d (dir r) (n @ '':'' @ n) (Some e), E_RemoveAll d, E_RUnlock]"
  | (unseal_failed) d n e where "GitSecret conf" and "res = Inl e"
      and "events s s' =
          [E_workingClone (dir r) (Branch conf) (Inr d),
           E_config d (UserName conf) (UserEmail conf) None,
           E_getNotesRef d (NotesRef conf) (Inr n), E_RLock,
           E_fetch d (dir r) tags_refspec None,
           E_fetch d (dir r) (n @ '':'' @ n) None, E_RUnlock,
           E_secretUnseal d (Some e)]"
  | (cloned) d n where
        "res = Inr \<lparr>Dir = d, config = conf, upstream = origin r, realNotesRef = n\<rparr>"
      and "events s s' =
          [E_workingClone (dir r) (Branch conf) (Inr d),
           E_config d (UserName conf) (UserEmail conf) None,
           E_getNotesRef d (NotesRef conf) (Inr n), E_RLock,
           E_fetch d (dir r) tags_refspec None,
           E_fetch d (dir r) (n @ '':'' @ n) None, E_RUnlock]
          @ (if GitSecret conf then [E_secretUnseal d None] else [])"
      and "\<exists>w w'. op_getNotesRef env d (NotesRef conf) w = (Inr n, w')"
proof -
  obtain r1 s1 where c1: "workingClone env r (Branch conf) s = (r1, s1)"
    by (metis surj_pair)
  note c1' = workingClone_run[OF c1]
  show ?thesis
  proof (cases r1)
    case (Inl e)
    with run c1 c1' show ?thesis by (intro clone_failed[of e]) (auto simp: Clone_def)
  next
    case d: (Inr d)
    obtain r2 s2 where c2: "config_identity env d (UserName conf) (UserEmail conf) s1 = (r2, s2)"
      by (metis surj_pair)
    note c2' = config_identity_run[OF c2]
    show ?thesis
    proof (cases r2)
      case (Some e)
      with run c1 d c2 c1' c2' show ?thesis
        by (intro config_failed[of e d]) (auto simp: Clone_def RemoveAll_run)
    next
      case r2: None
      obtain r3 s3 where c3: "getNotesRef env d (NotesRef conf) s2 = (r3, s3)"
        by (metis surj_pair)
      note c3' = getNotesRef_run[OF c3]
      show ?thesis
      proof (cases r3)
        case (Inl e)
        with run c1 d c2 r2 c3 c1' c2' c3' show ?thesis
          by (intro notes_ref_failed[of e d]) (auto simp: Clone_def RemoveAll_run)
      next
        case n: (Inr n)
        have resolved: "\<exists>w w'. op_getNotesRef env d (NotesRef conf) w = (Inr n, w')"
          using c3'(2) n by blast
        obtain r4 s4 where c4: "fetch env d (dir r) tags_refspec (RLock s3) = (r4, s4)"
          by (metis surj_pair)
        note c4' = fetch_run[OF c4]
        have tr4: "trace s4 = trace s @
           [E_workingClone (dir r) (Branch conf) (Inr d),
            E_config d (UserName conf) (UserEmail conf) None,
            E_getNotesRef d (NotesRef conf) (Inr n), E_RLock,
            E_fetch d (dir r) tags_refspec r4]"
          using d r2 n c1' c2' c3' c4' by (simp add: RLock_run)
        show ?thesis
        proof (cases r4)
          case (Some e)
          with run c1 d c2 r2 c3 n c4 tr4 show ?thesis
            by (intro tags_failed[of e d n]) (auto simp: Clone_def RemoveAll_run RUnlock_run)
        next
          case r4: None
          obtain r5 s5 where c5: "fetch env d (dir r) (n @ '':'' @ n) s4 = (r5, s5)"
            by (metis surj_pair)
          note c5' = fetch_run[OF c5]
          show ?thesis
          proof (cases r5)
            case (Some e)
            with run c1 d c2 r2 c3 n c4 r4 c5 tr4 c5' show ?thesis
              by (intro notes_failed[of e d n]) (auto simp: Clone_def RemoveAll_run RUnlock_run)
          next
            case r5: None
            have tr6: "trace (RUnlock s5) = trace s @
               [E_workingClone (dir r) (Branch conf) (Inr d),
                E_config d (UserName conf) (UserEmail conf) None,
                E_getNotesRef d (NotesRef conf) (Inr n), E_RLock,
                E_fetch d (dir r) tags_refspec None,
                E_fetch d (dir r) (n @ '':'' @ n) None, E_RUnlock]"
              using r4 r5 tr4 c5' by (simp add: RUnlock_run)
            show ?thesis
            proof (cases "GitSecret conf")
              case False
              with run c1 d c2 r2 c3 n c4 r4 c5 r5 tr6 show ?thesis
                by (intro cloned[of d n, OF _ _ resolved]) (auto simp: Clone_def Let_def Origin_def)
            next
              case True
              obtain r7 s7 where c7: "secretUnseal env d (RUnlock s5) = (r7, s7)"
                by (metis surj_pair)
              note c7' = secretUnseal_run[OF c7]
              show ?thesis
              proof (cases r7)
                case (Some e)
                with run c1 d c2 r2 c3 n c4 r4 c5 r5 True c7 tr6 c7' show ?thesis
                  by (intro unseal_failed[of e d n]) (auto simp: Clone_def Let_def)
              next
                case None
                with run c1 d c2 r2 c3 n c4 r4 c5 r5 True c7 tr6 c7' show ?thesis
                  by (intro cloned[of d n, OF _ _ resolved]) (auto simp: Clone_def Let_def Origin_def)
              qed
            qed
          qed
        qed
      qed
    qed
  qed
qed

text \<open>
  Every run of \<open>CommitAndPush\<close> takes one of seven paths. The last one reaches the push;
  its world is followed from the note write through the existence check to the push.
\<close>

lemma CommitAndPush_cases [consumes 1, case_names add_failed no_changes commit_failed
    head_failed note_failed exists_failed pushed]:
  assumes run: "CommitAndPush env c a nt au s = (res, s')"
  obtains
    (add_failed) e where "au" and "res = Some e"
      and "events s s' = [E_add (Dir c) ''.'' (Some e)]"
  | (no_changes) "res = Some ErrNoChanges"
      and "events s s' = staging c au @ [E_check (Dir c) (Paths (config c)) au False]"
      and "world s' = staged_world env c au (world s)"
  | (commit_failed) e where "res = Some e"
      and "events s s' = staging c au @
            [E_check (Dir c) (Paths (config c)) au True,
             E_commit (Dir c) (effective c a) (Some e)]"
  | (head_failed) e n where "nt = Some n" and "res = Some e"
      and "events s s' = staging c au @
            [E_check (Dir c) (Paths (config c)) au True,
             E_commit (Dir c) (effective c a) None,
             E_refRevision (Dir c) ''HEAD'' (Inl e)]"
  | (note_failed) e n rv where "nt = Some n" and "res = Some e"
      and "events s s' = staging c au @
            [E_check (Dir c) (Paths (config c)) au True,
             E_commit (Dir c) (effective c a) None,
             E_refRevision (Dir c) ''HEAD'' (Inr rv),
             E_addNote (Dir c) rv (NotesRef (config c)) n (Some e)]"
  | (exists_failed) e rv where "res = Some e"
      and "events s s' = staging c au @
            [E_check (Dir c) (Paths (config c)) au True,
             E_commit (Dir c) (effective c a) None] @ noting c nt rv @
            [E_refExists (Dir c) (realNotesRef c) False (Some e)]"
  | (pushed) rv ok err p w5 w6 where "ok \<or> err = None"
      and "res = map_option (PushError (URL (upstream c))) p"
      and "events s s' = staging c au @
            [E_check (Dir c) (Paths (config c)) au True,
             E_commit (Dir c) (effective c a) None] @ noting c nt rv @
            [E_refExists (Dir c) (realNotesRef c) ok err,
             E_push (Dir c) (URL (upstream c))
               (Branch (config c) # (if ok then [realNotesRef c] else [])) p]"
      and "\<And>n. nt = Some n \<Longrightarrow>
             \<exists>w4. op_addNote env (Dir c) rv (NotesRef (config c)) n w4 = (None, w5)"
      and "op_refExists env (Dir c) (realNotesRef c) w5 = ((ok, err), w6)"
      and "op_push env (Dir c) (URL (upstream c))
             (Branch (config c) # (if ok then [realNotesRef c] else [])) w6 = (p, world s')"
      and "w5 = noted_world env c a nt au (world s)"
      and "op_commit env (Dir c) (effective c a) (staged_world env c au (world s)) =
             (None, committed_world env c a au (world s))"
      and "\<And>n. nt = Some n \<Longrightarrow>
             \<exists>w4. op_refRevision env (Dir c) ''HEAD'' (committed_world env c a au (world s)) =
                    (Inr rv, w4) \<and>
                  op_addNote env (Dir c) rv (NotesRef (config c)) n w4 = (None, w5)"
      and "au \<Longrightarrow> fst (op_add env (Dir c) ''.'' (world s)) = None"
      and "op_check env (Dir c) (Paths (config c)) au (staged_world env c au (world s))"
proof -
  let ?d = "Dir c"
  obtain r1 s1 where st: "(if au then add env ?d ''.'' s else (None, s)) = (r1, s1)"
    by (cases "if au then add env ?d ''.'' s else (None, s)")
  have tr1: "trace s1 = trace s @ (if au then [E_add ?d ''.'' r1] else [])"
    and w1: "r1 = None \<Longrightarrow> world s1 = staged_world env c au (world s)"
    and au1: "r1 \<noteq> None \<Longrightarrow> au"
    and ad1: "r1 = None \<Longrightarrow> au \<Longrightarrow> fst (op_add env ?d ''.'' (world s)) = None"
    using st by (auto simp: staged_world_def split: if_splits dest: add_run)
  obtain b s2 where ck: "check env ?d (Paths (config c)) au s1 = (b, s2)"
    by (cases "check env ?d (Paths (config c)) au s1")
  note ck' = check_run[OF ck]
  obtain r3 s3 where cm: "commit env ?d (effective c a) s2 = (r3, s3)"
    by (cases "commit env ?d (effective c a) s2")
  note cm' = commit_run[OF cm]
  have eff: "(if commit_SigningKey (a\<lparr>commit_Message := commit_Message a @ SkipMessage (config c)\<rparr>) = []
       then a\<lparr>commit_Message := commit_Message a @ SkipMessage (config c)\<rparr>\<lparr>commit_SigningKey := SigningKey (config c)\<rparr>
       else a\<lparr>commit_Message := commit_Message a @ SkipMessage (config c)\<rparr>) = effective c a"
    by (simp add: effective_def)
  define push_phase where "push_phase s5 =
     (case refExists env ?d (realNotesRef c) s5 of
        ((ok, err), s6) \<Rightarrow>
     (case (if ok then Inr ([Branch (config c)] @ [realNotesRef c])
            else (case err of Some e \<Rightarrow> Inl e | None \<Rightarrow> Inr [Branch (config c)])) of
        Inl e \<Rightarrow> (Some e, s6)
      | Inr refs' \<Rightarrow>
     (case push env ?d (URL (upstream c)) refs' s6 of
        (Some err', s7) \<Rightarrow> (Some (PushError (URL (upstream c)) err'), s7)
      | (None, s7) \<Rightarrow> (None, s7))))" for s5
  have run': "(case (r1, s1) of
        (Some err, s1) \<Rightarrow> (Some err, s1)
      | (None, s1) \<Rightarrow>
     (case check env ?d (Paths (config c)) au s1 of
        (False, s2) \<Rightarrow> (Some ErrNoChanges, s2)
      | (True, s2) \<Rightarrow>
     (case commit env ?d (effective c a) s2 of
        (Some err, s3) \<Rightarrow> (Some err, s3)
      | (None, s3) \<Rightarrow>
     (case (case nt of
              None \<Rightarrow> (None, s3)
            | Some n \<Rightarrow>
                (case refRevision env ?d ''HEAD'' s3 of
                   (Inl err, s4) \<Rightarrow> (Some err, s4)
                 | (Inr rv, s4) \<Rightarrow> addNote env ?d rv (NotesRef (config c)) n s4)) of
        (Some err, s5) \<Rightarrow> (Some err, s5)
      | (None, s5) \<Rightarrow> push_phase s5)))) = (res, s')"
    using run unfolding CommitAndPush_def Let_def eff st push_phase_def HeadRevision_def .
  have tail: thesis
    if tr5: "trace s5 = trace s @ staging c au @
            [E_check ?d (Paths (config c)) au True,
             E_commit ?d (effective c a) None] @ noting c nt rv"
      and w5: "\<And>n. nt = Some n \<Longrightarrow>
             \<exists>w4. op_refRevision env ?d ''HEAD'' (committed_world env c a au (world s)) =
                    (Inr rv, w4) \<and>
                  op_addNote env ?d rv (NotesRef (config c)) n w4 = (None, world s5)"
      and wn: "world s5 = noted_world env c a nt au (world s)"
      and cw: "op_commit env ?d (effective c a) (staged_world env c au (world s)) =
             (None, committed_world env c a au (world s))"
      and ad: "au \<Longrightarrow> fst (op_add env ?d ''.'' (world s)) = None"
      and ch: "op_check env ?d (Paths (config c)) au (staged_world env c au (world s))"
      and ph: "push_phase s5 = (res, s')" for s5 rv
  proof -
    obtain ok err s6 where re: "refExists env ?d (realNotesRef c) s5 = ((ok, err), s6)"
      by (metis surj_pair)
    note re' = refExists_run[OF re]
    let ?refs = "Branch (config c) # (if ok then [realNotesRef c] else [])"
    obtain p s7 where pu: "push env ?d (URL (upstream c)) ?refs s6 = (p, s7)"
      by (metis surj_pair)
    note pu' = push_run[OF pu]
    show thesis
    proof (cases "ok \<or> err = None")
      case False
      then obtain e where e: "\<not> ok" "err = Some e" by auto
      with ph re have "res = Some e" "s' = s6" by (auto simp: push_phase_def)
      with e re' tr5 show thesis by (intro exists_failed[of e rv]) auto
    next
      case True
      with ph re pu have "res = map_option (PushError (URL (upstream c))) p" "s' = s7"
        by (auto simp: push_phase_def split: option.splits if_splits)
      note True
      have "\<exists>w4. op_addNote env ?d rv (NotesRef (config c)) n w4 = (None, world s5)"
        if "nt = Some n" for n
        using w5[OF that] by blast
      with True re' pu' tr5 w5 wn cw ad ch \<open>res = _\<close> \<open>s' = s7\<close> show thesis
        by (intro pushed[of ok err p rv "world s5" "world s6"]) auto
    qed
  qed
  show ?thesis
  proof (cases r1)
    case (Some e)
    with run' au1 tr1 show ?thesis by (intro add_failed[of e]) auto
  next
    case r1: None
    show ?thesis
    proof (cases b)
      case False
      with run' r1 ck ck' tr1 w1 show ?thesis
        by (intro no_changes) (auto simp: staging_def)
    next
      case b: True
      show ?thesis
      proof (cases r3)
        case (Some e)
        with run' r1 b ck cm ck' cm' tr1 show ?thesis
          by (intro commit_failed[of e]) (auto simp: staging_def)
      next
        case r3: None
        have tr3: "trace s3 = trace s @ staging c au @
            [E_check ?d (Paths (config c)) au True, E_commit ?d (effective c a) None]"
          using r1 b r3 tr1 ck' cm' by (auto simp: staging_def)
        have cw: "op_commit env ?d (effective c a) (staged_world env c au (world s)) =
            (None, committed_world env c a au (world s))"
          and w3: "world s3 = committed_world env c a au (world s)"
          using r1 r3 w1 ck'(2) cm'(2) by (simp_all add: committed_world_def)
        have ad: "au \<Longrightarrow> fst (op_add env ?d ''.'' (world s)) = None"
          using r1 ad1 by simp
        have ch: "op_check env ?d (Paths (config c)) au (staged_world env c au (world s))"
          using r1 b w1 ck'(2,3) by simp
        show ?thesis
        proof (cases nt)
          case None
          with run' r1 b r3 ck cm have "push_phase s3 = (res, s')" by simp
          moreover have "trace s3 = trace s @ staging c au @
              [E_check ?d (Paths (config c)) au True,
               E_commit ?d (effective c a) None] @ noting c nt []"
            using None tr3 by (simp add: noting_def)
          moreover have "world s3 = noted_world env c a nt au (world s)"
            using None w3 by (simp add: noted_world_def)
          ultimately show ?thesis
            using None cw ad ch by (intro tail[of s3 "[]"]) auto
        next
          case (Some n)
          obtain r4 s4 where hd: "refRevision env ?d ''HEAD'' s3 = (r4, s4)"
            by (metis surj_pair)
          note hd' = refRevision_run[OF hd]
          show ?thesis
          proof (cases r4)
            case (Inl e)
            with run' r1 b r3 ck cm Some hd have "res = Some e" "s' = s4" by auto
            with Some Inl hd' tr3 show ?thesis by (intro head_failed[of n e]) auto
          next
            case (Inr rv)
            obtain r5 s5 where an: "addNote env ?d rv (NotesRef (config c)) n s4 = (r5, s5)"
              by (metis surj_pair)
            note an' = addNote_run[OF an]
            show ?thesis
            proof (cases r5)
              case (Some e)
              with run' r1 b r3 ck cm \<open>nt = Some n\<close> hd Inr an have "res = Some e" "s' = s5"
                by auto
              with \<open>nt = Some n\<close> Some Inr hd' an' tr3 show ?thesis
                by (intro note_failed[of n e rv]) auto
            next
              case None
              with run' r1 b r3 ck cm \<open>nt = Some n\<close> hd Inr an
              have "push_phase s5 = (res, s')" by simp
              moreover have "trace s5 = trace s @ staging c au @
                  [E_check ?d (Paths (config c)) au True,
                   E_commit ?d (effective c a) None] @ noting c nt rv"
                using \<open>nt = Some n\<close> None Inr hd' an' tr3 by (simp add: noting_def)
              moreover have "\<exists>w4.
                  op_refRevision env ?d ''HEAD'' (committed_world env c a au (world s)) =
                    (Inr rv, w4) \<and>
                  op_addNote env ?d rv (NotesRef (config c)) n' w4 = (None, world s5)"
                if "nt = Some n'" for n'
                using that \<open>nt = Some n\<close> None Inr hd'(2) an'(2) w3 by auto
              moreover have "world s5 = noted_world env c a nt au (world s)"
                using \<open>nt = Some n\<close> None Inr hd'(2) an'(2) w3
                by (simp add: noted_world_def)
              ultimately show ?thesis
                using cw ad ch by (intro tail[of s5 rv]) auto
            qed
          qed
        qed
      qed
    qed
  qed
qed

lemmas path_defs = staging_def noting_def

section \<open>Runs on the in-memory operation set\<close>

lemmas mem_defs = mem_env_def mem_workingClone_def mem_config_def mem_getNotesRef_def
  mem_fetch_def mem_secretUnseal_def mem_RemoveAll_def mem_Join_def Clean_def mem_add_def mem_check_def
  mem_commit_def mem_refRevision_def mem_addNote_def mem_refExists_def mem_push_def
  mem_getNote_def mem_moveTagAndPush_def mem_changed_def mem_noteRevList_def mem_checkout_def
  failure_def under_def in_scope_def full_notes_ref_def working_dir_def

lemmas call_defs = workingClone_def config_identity_def getNotesRef_def RLock_def RUnlock_def
  fetch_def secretUnseal_def RemoveAll_def add_def check_def commit_def refRevision_def
  addNote_def refExists_def push_def getNote_def moveTagAndPush_def changed_def
  noteRevList_def checkout_def log_def Let_def

lemmas input_defs = world0_def world1_def start_def repo0_def conf0_def checkout0_def
  action0_def

text \<open>A clone of the mirror on a fresh machine succeeds and gives \<open>checkout0\<close>.\<close>

lemma run_Clone:
  "Clone mem_env repo0 conf0 (start world0) =
     (Inr checkout0,
      \<lparr>world = world0\<lparr>dirs := [working_dir]\<rparr>,
       trace =
         [E_workingClone ''/var/mirror'' ''master'' (Inr working_dir),
          E_config working_dir ''flux'' ''flux@example.com'' None,
          E_getNotesRef working_dir ''flux'' (Inr ''refs/notes/flux''),
          E_RLock,
          E_fetch working_dir ''/var/mirror'' tags_refspec None,
          E_fetch working_dir ''/var/mirror'' ''refs/notes/flux:refs/notes/flux'' None,
          E_RUnlock]\<rparr>)"
  by (simp add: Clone_def Origin_def call_defs mem_defs input_defs)

text \<open>With secrets to unseal and an unsealing that fails, the clone fails.\<close>

lemma run_Clone_sealed:
  "Clone mem_env repo0 conf_secret (start world_sealed) =
     (Inl (OpError ''gpg: decryption failed''),
      \<lparr>world = world_sealed\<lparr>dirs := [working_dir]\<rparr>,
       trace =
         [E_workingClone ''/var/mirror'' ''master'' (Inr working_dir),
          E_config working_dir ''flux'' ''flux@example.com'' None,
          E_getNotesRef working_dir ''flux'' (Inr ''refs/notes/flux''),
          E_RLock,
          E_fetch working_dir ''/var/mirror'' tags_refspec None,
          E_fetch working_dir ''/var/mirror'' ''refs/notes/flux:refs/notes/flux'' None,
          E_RUnlock,
          E_secretUnseal working_dir (Some (OpError ''gpg: decryption failed''))]\<rparr>)"
  by (simp add: Clone_def Origin_def call_defs mem_defs input_defs world_sealed_def
      conf_secret_def)

text \<open>A commit with a note on the clone, with one changed file: everything succeeds.\<close>

lemma run_noted:
  "CommitAndPush mem_env checkout0 action0 (Some ''release-2'') False (start world1) =
     (None,
      \<lparr>world = world1\<lparr>HEAD := rev1, dirty := [],
                 noted := [((''refs/notes/flux'', rev1), ''release-2'')],
                 pushed := [(''git@example.com:org/repo'', [''master'', ''refs/notes/flux''])]\<rparr>,
       trace =
         [E_check working_dir [] False True,
          E_commit working_dir signed0 None,
          E_refRevision working_dir ''HEAD'' (Inr rev1),
          E_addNote working_dir rev1 ''flux'' ''release-2'' None,
          E_refExists working_dir ''refs/notes/flux'' True None,
          E_push working_dir ''git@example.com:org/repo''
            [''master'', ''refs/notes/flux''] None]\<rparr>)"
  by (simp add: CommitAndPush_def HeadRevision_def call_defs mem_defs input_defs rev1_def
      signed0_def)

text \<open>The same without a note: the clone has no notes ref yet.\<close>

lemma run_plain:
  "CommitAndPush mem_env checkout0 action0 None False (start world1) =
     (None,
      \<lparr>world = world1\<lparr>HEAD := rev1, dirty := [],
                 pushed := [(''git@example.com:org/repo'', [''master''])]\<rparr>,
       trace =
         [E_check working_dir [] False True,
          E_commit working_dir signed0 None,
          E_refExists working_dir ''refs/notes/flux'' False None,
          E_push working_dir ''git@example.com:org/repo'' [''master''] None]\<rparr>)"
  by (simp add: CommitAndPush_def HeadRevision_def call_defs mem_defs input_defs rev1_def
      signed0_def)

text \<open>Staging on \<open>world2\<close> takes the undone change out of the index; nothing is left.\<close>

lemma run_staged:
  "CommitAndPush mem_env checkout0 action0 None True (start world2) =
     (Some ErrNoChanges,
      \<lparr>world = world2\<lparr>index := []\<rparr>,
       trace =
         [E_add working_dir ''.'' None,
          E_check working_dir [] True False]\<rparr>)"
  by (simp add: CommitAndPush_def HeadRevision_def call_defs mem_defs input_defs world2_def)

text \<open>The remote cannot be reached.\<close>

lemma run_offline:
  "CommitAndPush mem_env checkout0 action0 (Some ''release-2'') False (start world_offline) =
     (Some (PushError ''git@example.com:org/repo'' (OpError ''connection refused'')),
      \<lparr>world = world_offline\<lparr>HEAD := rev1, dirty := [],
                 noted := [((''refs/notes/flux'', rev1), ''release-2'')]\<rparr>,
       trace =
         [E_check working_dir [] False True,
          E_commit working_dir signed0 None,
          E_refRevision working_dir ''HEAD'' (Inr rev1),
          E_addNote working_dir rev1 ''flux'' ''release-2'' None,
          E_refExists working_dir ''refs/notes/flux'' True None,
          E_push working_dir ''git@example.com:org/repo''
            [''master'', ''refs/notes/flux''] (Some (OpError ''connection refused''))]\<rparr>)"
  by (simp add: CommitAndPush_def HeadRevision_def call_defs mem_defs input_defs rev1_def
      signed0_def world_offline_def)

text \<open>The existence check of the notes ref fails.\<close>

lemma run_badref:
  "CommitAndPush mem_env checkout0 action0 (Some ''release-2'') False (start world_badref) =
     (Some (OpError ''fatal: bad object''),
      \<lparr>world = world_badref\<lparr>HEAD := rev1, dirty := [],
                 noted := [((''refs/notes/flux'', rev1), ''release-2'')]\<rparr>,
       trace =
         [E_check working_dir [] False True,
          E_commit working_dir signed0 None,
          E_refRevision working_dir ''HEAD'' (Inr rev1),
          E_addNote working_dir rev1 ''flux'' ''release-2'' None,
          E_refExists working_dir ''refs/notes/flux'' False
            (Some (OpError ''fatal: bad object''))]\<rparr>)"
  by (simp add: CommitAndPush_def HeadRevision_def call_defs mem_defs input_defs rev1_def
      signed0_def world_badref_def)


section \<open>Acquisition\<close>

text \<open>
  Claim C1 (all-or-nothing acquisition) fails on the path where unsealing the secrets
  fails. Whenever \<open>secretUnseal\<close> returns an error, \<open>Clone\<close> returns that error, the
  directory that \<open>workingClone\<close> created is the one the unsealing ran in, and no
  \<^verbatim>\<open>os.RemoveAll\<close> of it was made: the failed unsealing is the last call of the run.
  The claim asks for the directory to be removed on this path too.
\<close>

theorem Clone_unseal_failure_keeps_directory:
  assumes run: "Clone env r conf s = (res, s')"
    and failed: "E_secretUnseal d (Some e) \<in> set (events s s')"
  shows "res = Inl e \<and>
         E_workingClone (dir r) (Branch conf) (Inr d) \<in> set (events s s') \<and>
         E_RemoveAll d \<notin> set (events s s') \<and>
         last (events s s') = E_secretUnseal d (Some e)"
  using run
proof (cases rule: Clone_cases)
  case (unseal_failed d' n e')
  with failed show ?thesis by auto
qed (use failed in \<open>auto split: if_splits\<close>)

theorem Clone_unseal_failure_witness:
  "E_secretUnseal working_dir (Some (OpError ''gpg: decryption failed'')) \<in>
     set (events (start world_sealed) (snd sealed_run)) \<and>
   fst sealed_run =
     Inl (OpError ''gpg: decryption failed'') \<and>
   E_RemoveAll working_dir \<notin>
     set (events (start world_sealed) (snd sealed_run)) \<and>
   dirs (world (snd sealed_run)) = [working_dir]"
  using Clone_unseal_failure_keeps_directory[OF run_Clone_sealed,
      of working_dir "OpError ''gpg: decryption failed''"]
  by (simp add: sealed_run_def run_Clone_sealed)

text \<open>
  On the other failing paths after the directory exists (identity configuration,
  notes-ref resolution, tag fetch, notes fetch) the directory is removed.
\<close>

lemma Clone_failure_cleanup:
  assumes run: "Clone env r conf s = (Inl e, s')"
    and made: "E_workingClone (dir r) (Branch conf) (Inr d) \<in> set (events s s')"
    and sealed: "\<forall>x. E_secretUnseal d x \<notin> set (events s s')"
  shows "E_RemoveAll d \<in> set (events s s')"
  using run
proof (cases rule: Clone_cases)
qed (use made sealed in \<open>auto split: if_splits\<close>)

text \<open>
  Claim C6 (fetch ordering). In every run of \<open>Clone\<close>, successful or not, the fetches are
  none at all, or the forced tag fetch alone, which then failed, or the successful forced
  tag fetch followed by the fetch of the notes ref that \<open>getNotesRef\<close> resolved. So the
  tag fetch comes strictly first and the notes ref is fetched only after it succeeded.
\<close>

theorem Clone_fetch_order:
  assumes run: "Clone env r conf s = (res, s')"
  shows "filter is_fetch (events s s') = []
    \<or> (\<exists>d e. filter is_fetch (events s s') = [E_fetch d (dir r) tags_refspec (Some e)])
    \<or> (\<exists>d n x. E_getNotesRef d (NotesRef conf) (Inr n) \<in> set (events s s') \<and>
          filter is_fetch (events s s') =
            [E_fetch d (dir r) tags_refspec None, E_fetch d (dir r) (n @ '':'' @ n) x])"
  using run
proof (cases rule: Clone_cases)
  case (clone_failed e)
  then show ?thesis by simp
next
  case (config_failed d e)
  then show ?thesis by simp
next
  case (notes_ref_failed d e)
  then show ?thesis by simp
next
  case (tags_failed d n e)
  then have "filter is_fetch (events s s') = [E_fetch d (dir r) tags_refspec (Some e)]"
    by simp
  then show ?thesis by blast
next
  case (notes_failed d n e)
  then have "E_getNotesRef d (NotesRef conf) (Inr n) \<in> set (events s s')"
    and "filter is_fetch (events s s') =
      [E_fetch d (dir r) tags_refspec None, E_fetch d (dir r) (n @ '':'' @ n) (Some e)]"
    by simp_all
  then show ?thesis by blast
next
  case (unseal_failed d n e)
  then have "E_getNotesRef d (NotesRef conf) (Inr n) \<in> set (events s s')"
    and "filter is_fetch (events s s') =
      [E_fetch d (dir r) tags_refspec None, E_fetch d (dir r) (n @ '':'' @ n) None]"
    by simp_all
  then show ?thesis by blast
next
  case (cloned d n)
  then have "E_getNotesRef d (NotesRef conf) (Inr n) \<in> set (events s s')"
    and "filter is_fetch (events s s') =
      [E_fetch d (dir r) tags_refspec None, E_fetch d (dir r) (n @ '':'' @ n) None]"
    by simp_all
  then show ?thesis by blast
qed

theorem Clone_fetch_order_witness:
  "fst clone_run = Inr checkout0 \<and>
   filter is_fetch (events (start world0) (snd clone_run)) =
     [E_fetch working_dir ''/var/mirror'' tags_refspec None,
      E_fetch working_dir ''/var/mirror'' ''refs/notes/flux:refs/notes/flux'' None]"
  using Clone_fetch_order[OF run_Clone]
  by (simp add: clone_run_def run_Clone)

section \<open>AbsolutePaths\<close>

lemma store_each_map:
  "i + length ps \<le> length acc \<Longrightarrow>
   store_each f ps i acc = take i acc @ map f ps @ drop (i + length ps) acc"
proof (induction ps arbitrary: i acc)
  case Nil
  then show ?case by simp
next
  case (Cons p ps)
  then have "store_each f (p # ps) i acc =
      take (Suc i) (acc[i := f p]) @ map f ps @ drop (Suc i + length ps) (acc[i := f p])"
    by simp
  also have "take (Suc i) (acc[i := f p]) = take i acc @ [f p]"
    using Cons.prems by (simp add: take_Suc_conv_app_nth)
  also have "drop (Suc i + length ps) (acc[i := f p]) = drop (i + length (p # ps)) acc"
    by simp
  finally show ?case by simp
qed

lemma store_each_all: "length acc = length ps \<Longrightarrow> store_each f ps 0 acc = map f ps"
  by (simp add: store_each_map)

text \<open>
  Claim C8 (AbsolutePaths totality and shape). \<open>AbsolutePaths\<close> never returns the empty
  list; without path filters it returns the clone's directory alone, and otherwise the
  filters in order, each joined onto the clone's directory.
\<close>

theorem AbsolutePaths_shape:
  "AbsolutePaths env c \<noteq> [] \<and>
   AbsolutePaths env c =
     (if Paths (config c) = [] then [Dir c]
      else map (op_Join env (Dir c)) (Paths (config c)))"
proof (cases "Paths (config c) = []")
  case True
  then show ?thesis by (simp add: AbsolutePaths_def)
next
  case False
  let ?join = "op_Join env (Dir c)"
  have "store_each ?join (Paths (config c)) 0 (replicate (length (Paths (config c))) []) =
      map ?join (Paths (config c))"
    by (rule store_each_all) simp
  with False show ?thesis by (simp add: AbsolutePaths_def)
qed

text \<open>
  With \<^verbatim>\<open>filepath.Join\<close> for \<open>Join\<close>: two filters, no filter, and two filters
  that are not clean (a trailing slash; a dot, a step back and a doubled slash).
\<close>

theorem AbsolutePaths_shape_witness:
  "AbsolutePaths mem_env (checkout0\<lparr>config := conf0\<lparr>Paths := [''manifests'', ''charts/app'']\<rparr>\<rparr>) =
     [''/tmp/flux-working/manifests'', ''/tmp/flux-working/charts/app''] \<and>
   AbsolutePaths mem_env checkout0 = [''/tmp/flux-working''] \<and>
   AbsolutePaths mem_env
     (checkout0\<lparr>config := conf0\<lparr>Paths := [''manifests/'', ''./charts/../charts//app'']\<rparr>\<rparr>) =
     [''/tmp/flux-working/manifests'', ''/tmp/flux-working/charts/app'']"
  using AbsolutePaths_shape[of mem_env checkout0]
    AbsolutePaths_shape[of mem_env "checkout0\<lparr>config := conf0\<lparr>Paths := [''manifests'', ''charts/app'']\<rparr>\<rparr>"]
    AbsolutePaths_shape[of mem_env
      "checkout0\<lparr>config := conf0\<lparr>Paths := [''manifests/'', ''./charts/../charts//app'']\<rparr>\<rparr>"]
  by (simp add: mem_env_def mem_Join_def Clean_def checkout0_def conf0_def working_dir_def)

section \<open>CommitAndPush\<close>

text \<open>
  Claim C3 (no-changes condition), as amended. When the change check reports no changes,
  \<open>CommitAndPush\<close> returns \<open>ErrNoChanges\<close>; the calls it made are the staging of
  \<^verbatim>\<open>.\<close> (only when asked to add untracked files) and the check, so there is no
  commit, no note write, no existence check and no push; and the world is the one the
  staging left, which is the world of the start when nothing was staged.
\<close>

theorem CommitAndPush_no_changes:
  assumes run: "CommitAndPush env c a nt au s = (res, s')"
    and nochange: "E_check d ps u False \<in> set (events s s')"
  shows "res = Some ErrNoChanges \<and>
         events s s' = staging c au @ [E_check (Dir c) (Paths (config c)) au False] \<and>
         world s' = staged_world env c au (world s)"
  using run
proof (cases rule: CommitAndPush_cases)
  case no_changes
  then show ?thesis by simp
qed (use nochange in \<open>auto simp: path_defs split: option.splits if_splits\<close>)

text \<open>
  The claim as stated, that the local clone is left unmutated, fails when untracked
  files are added: on \<open>world2\<close> the staging empties the index, the check then finds no
  changes, and \<open>CommitAndPush\<close> returns \<open>ErrNoChanges\<close> with the index changed.
\<close>

theorem CommitAndPush_no_changes_counterexample:
  "fst staged_run = Some ErrNoChanges \<and>
   index world2 = [''deploy.yaml''] \<and>
   index (world (snd staged_run)) = [] \<and>
   world (snd staged_run) \<noteq> world2"
  by (simp add: staged_run_def run_staged) (simp add: world2_def world0_def)

theorem CommitAndPush_no_changes_witness:
  "E_check working_dir [] True False \<in> set (events (start world2) (snd staged_run)) \<and>
   fst staged_run = Some ErrNoChanges \<and>
   events (start world2) (snd staged_run) =
     [E_add working_dir ''.'' None, E_check working_dir [] True False] \<and>
   world (snd staged_run) = staged_world mem_env checkout0 True world2"
  using CommitAndPush_no_changes[OF run_staged, of working_dir "[]" True]
  by (simp add: staged_run_def run_staged) (simp add: staged_world_def mem_defs input_defs world2_def)

text \<open>
  Claim C4 (push failure). When the push fails with an error, \<open>CommitAndPush\<close> returns
  \<open>PushError\<close> of the remote's URL and that error; the push went to that URL; the commit
  and, with a payload, the note write had succeeded before; and the failed push is the
  last call of the run, so the world is the one the push left: nothing is undone.
\<close>

theorem CommitAndPush_push_failure:
  assumes run: "CommitAndPush env c a nt au s = (res, s')"
    and failed: "E_push d url refs (Some e) \<in> set (events s s')"
  shows "res = Some (PushError (URL (upstream c)) e) \<and> url = URL (upstream c) \<and>
         last (events s s') = E_push d url refs (Some e) \<and>
         E_commit (Dir c) (effective c a) None \<in> set (events s s') \<and>
         (\<forall>n. nt = Some n \<longrightarrow>
            (\<exists>rv. E_addNote (Dir c) rv (NotesRef (config c)) n None \<in> set (events s s'))) \<and>
         (\<exists>w. op_push env d url refs w = (Some e, world s'))"
  using run
proof (cases rule: CommitAndPush_cases)
  case (pushed rv ok err p w5 w6)
  with failed have "p = Some e" "d = Dir c" "url = URL (upstream c)"
    "refs = Branch (config c) # (if ok then [realNotesRef c] else [])"
    by (auto simp: path_defs split: option.splits if_splits)
  with pushed show ?thesis
    by (auto simp: path_defs split: option.splits)
qed (use failed in \<open>auto simp: path_defs split: option.splits if_splits\<close>)

theorem CommitAndPush_push_failure_witness:
  "E_push working_dir ''git@example.com:org/repo'' [''master'', ''refs/notes/flux'']
       (Some (OpError ''connection refused'')) \<in> set (events (start world_offline) (snd offline_run)) \<and>
   fst offline_run = Some (PushError (URL (upstream checkout0)) (OpError ''connection refused'')) \<and>
   HEAD (world (snd offline_run)) = rev1 \<and>
   noted (world (snd offline_run)) = [((''refs/notes/flux'', rev1), ''release-2'')] \<and>
   pushed (world (snd offline_run)) = []"
  using CommitAndPush_push_failure[OF run_offline, of working_dir "''git@example.com:org/repo''"
      "[''master'', ''refs/notes/flux'']" "OpError ''connection refused''"]
  by (simp add: offline_run_def run_offline) (simp add: world_offline_def world1_def world0_def)

text \<open>
  Claim C5 (notes-ref push gating). When \<open>CommitAndPush\<close> reaches the push, it is the only
  push of the run and comes right after the existence check. That check is the answer
  of \<^verbatim>\<open>refExists\<close> for the cached notes ref in the world at push time, the one that
  staging, commit and note write have left; the push is \<^verbatim>\<open>push\<close> run on the world
  the check left, and the final world is the one it returns. The refs it is given are
  the configured branch, followed by the cached notes ref exactly when the check
  answered that the ref exists; and the run succeeds exactly when the push does.
\<close>

theorem CommitAndPush_pushed_refs:
  assumes run: "CommitAndPush env c a nt au s = (res, s')"
    and reached: "E_push d url refs p \<in> set (events s s')"
  shows "\<exists>ok err pre w6.
           events s s' = pre @ [E_refExists (Dir c) (realNotesRef c) ok err,
                                E_push d url refs p] \<and>
           \<not> list_ex is_push pre \<and>
           op_refExists env (Dir c) (realNotesRef c) (noted_world env c a nt au (world s)) =
             ((ok, err), w6) \<and>
           op_push env (Dir c) (URL (upstream c)) refs w6 = (p, world s') \<and>
           refs = Branch (config c) # (if ok then [realNotesRef c] else []) \<and>
           (res = None \<longleftrightarrow> p = None)"
  using run
proof (cases rule: CommitAndPush_cases)
  case (pushed rv ok err p' w5 w6)
  with reached have eq: "p' = p" "d = Dir c" "url = URL (upstream c)"
    "refs = Branch (config c) # (if ok then [realNotesRef c] else [])"
    by (auto simp: path_defs split: option.splits if_splits)
  let ?pre = "staging c au @ [E_check (Dir c) (Paths (config c)) au True,
             E_commit (Dir c) (effective c a) None] @ noting c nt rv"
  have "events s s' = ?pre @ [E_refExists (Dir c) (realNotesRef c) ok err, E_push d url refs p]"
    using pushed(3) eq by simp
  moreover have "\<not> list_ex is_push ?pre"
    by (auto simp: path_defs split: option.splits)
  moreover have "op_refExists env (Dir c) (realNotesRef c)
      (noted_world env c a nt au (world s)) = ((ok, err), w6)"
    using pushed(5,7) by simp
  moreover have "op_push env (Dir c) (URL (upstream c)) refs w6 = (p, world s')"
    using pushed(6) eq by simp
  moreover have "res = None \<longleftrightarrow> p = None"
    using pushed(2) eq by auto
  ultimately show ?thesis using eq(4) by blast
qed (use reached in \<open>auto simp: path_defs split: option.splits if_splits\<close>)

text \<open>
  On a clone without a notes ref and without a payload, \<^verbatim>\<open>refExists\<close> answers no at
  push time, only the branch is pushed, and the push succeeds. With a payload the note
  write has made the notes ref by then: \<^verbatim>\<open>refExists\<close> answers yes and both refs are
  pushed.
\<close>

theorem CommitAndPush_pushed_refs_witness:
  "E_push working_dir ''git@example.com:org/repo'' [''master''] None \<in>
     set (events (start world1) (snd plain_run)) \<and>
   fst (op_refExists mem_env working_dir ''refs/notes/flux''
         (noted_world mem_env checkout0 action0 None False world1)) = (False, None) \<and>
   filter is_push (events (start world1) (snd plain_run)) =
     [E_push working_dir ''git@example.com:org/repo'' [Branch (config checkout0)] None] \<and>
   fst plain_run = None \<and>
   pushed (world (snd plain_run)) = [(''git@example.com:org/repo'', [''master''])] \<and>
   E_push working_dir ''git@example.com:org/repo'' [''master'', ''refs/notes/flux''] None \<in>
     set (events (start world1) (snd noted_run)) \<and>
   fst (op_refExists mem_env working_dir ''refs/notes/flux''
         (noted_world mem_env checkout0 action0 (Some ''release-2'') False world1)) =
     (True, None) \<and>
   pushed (world (snd noted_run)) =
     [(''git@example.com:org/repo'', [''master'', ''refs/notes/flux''])]"
  using CommitAndPush_pushed_refs[OF run_plain, of working_dir "''git@example.com:org/repo''"
      "[''master'']" None]
    CommitAndPush_pushed_refs[OF run_noted, of working_dir "''git@example.com:org/repo''"
      "[''master'', ''refs/notes/flux'']" None]
  by (simp add: plain_run_def noted_run_def run_plain run_noted)
     (simp add: noted_world_def committed_world_def staged_world_def effective_def
        mem_defs input_defs rev1_def)



text \<open>
  Claim C10 (failing existence check). When the existence check of the notes ref reports
  the ref absent together with an error, \<open>CommitAndPush\<close> returns that very error, not
  wrapped in \<open>PushError\<close>, and pushes nothing, although the commit and, with a payload,
  the note write have been made; the check is the last call of the run.
\<close>

theorem CommitAndPush_refExists_error:
  assumes run: "CommitAndPush env c a nt au s = (res, s')"
    and failed: "E_refExists d ref False (Some e) \<in> set (events s s')"
  shows "res = Some e \<and> \<not> list_ex is_push (events s s') \<and>
         last (events s s') = E_refExists d ref False (Some e) \<and>
         E_commit (Dir c) (effective c a) None \<in> set (events s s') \<and>
         (\<forall>n. nt = Some n \<longrightarrow>
            (\<exists>rv. E_addNote (Dir c) rv (NotesRef (config c)) n None \<in> set (events s s')))"
  using run
proof (cases rule: CommitAndPush_cases)
  case (exists_failed e' rv)
  with failed have "e' = e" "d = Dir c" "ref = realNotesRef c"
    by (auto simp: path_defs split: option.splits if_splits)
  with exists_failed show ?thesis
    by (auto simp: path_defs split: option.splits)
qed (use failed in \<open>auto simp: path_defs split: option.splits if_splits\<close>)

theorem CommitAndPush_refExists_error_witness:
  "E_refExists working_dir ''refs/notes/flux'' False (Some (OpError ''fatal: bad object'')) \<in>
     set (events (start world_badref) (snd badref_run)) \<and>
   fst badref_run = Some (OpError ''fatal: bad object'') \<and>
   \<not> list_ex is_push (events (start world_badref) (snd badref_run)) \<and>
   HEAD (world (snd badref_run)) = rev1 \<and>
   noted (world (snd badref_run)) = [((''refs/notes/flux'', rev1), ''release-2'')]"
  using CommitAndPush_refExists_error[OF run_badref, of working_dir "''refs/notes/flux''"
      "OpError ''fatal: bad object''"]
  by (simp add: badref_run_def run_badref)

subsection \<open>Notes on the in-memory operation set\<close>

text \<open>What the in-memory operations do to the world when they succeed.\<close>

lemma full_notes_ref_idem: "full_notes_ref (full_notes_ref x) = full_notes_ref x"
  by (simp add: full_notes_ref_def)

lemma mem_staged_world:
  "HEAD (staged_world mem_env c au w) = HEAD w"
  "noted (staged_world mem_env c au w) = noted w"
  by (simp_all add: staged_world_def mem_env_def mem_add_def split: option.splits)

lemma mem_commit_ok:
  assumes "op_commit mem_env d act w = (None, w')"
  shows "w' = w\<lparr>HEAD := commit_Message act @ ''^'' @ HEAD w, dirty := [], index := []\<rparr>"
  using assms by (auto simp: mem_env_def mem_commit_def split: option.splits)

lemma mem_refRevision_ok:
  assumes "op_refRevision mem_env d ''HEAD'' w = (Inr rv, w')"
  shows "rv = HEAD w" and "w' = w"
  using assms by (auto simp: mem_env_def mem_refRevision_def split: option.splits)

lemma mem_addNote_ok:
  assumes "op_addNote mem_env d rv ref n w = (None, w')"
  shows "w' = w\<lparr>noted := ((full_notes_ref ref, rv), n) # noted w\<rparr>"
  using assms by (auto simp: mem_env_def mem_addNote_def split: option.splits)

lemma mem_refExists_world:
  assumes "op_refExists mem_env d ref w = (res, w')"
  shows "w' = w"
  using assms by (auto simp: mem_env_def mem_refExists_def split: option.splits)

lemma mem_push_ok:
  assumes "op_push mem_env d url refs w = (None, w')"
  shows "w' = w\<lparr>pushed := pushed w @ [(url, refs)]\<rparr>"
  using assms by (auto simp: mem_env_def mem_push_def split: option.splits)

text \<open>
  A working clone that \<open>Clone\<close> returns caches as its notes ref what \<^verbatim>\<open>getNotesRef\<close>
  resolved the configured name to: on the in-memory operation set, its full name.
\<close>

lemma Clone_mem_checkout:
  assumes "Clone mem_env r conf s0 = (Inr c, s1)"
  shows "config c = conf" and "realNotesRef c = full_notes_ref (NotesRef conf)"
  using assms
  by (cases rule: Clone_cases;
      auto simp: mem_env_def mem_getNotesRef_def split: option.splits)+

text \<open>
  Claim C2 (note round trip). On the in-memory operation set, whose note store files a
  note under the full name of the ref it is given: take any working clone that \<open>Clone\<close>
  returned and any \<open>CommitAndPush\<close> on it with a payload that succeeds, from any world.
  Then the notes of the world afterwards are the notes of before and one more, the
  payload, filed under the clone's cached resolved notes ref at the revision of \<open>HEAD\<close>;
  that revision is the one of the commit just made (its message and the former \<open>HEAD\<close>);
  the commit and the note write at that revision are calls of the run; and \<open>GetNote\<close>
  at that revision returns found, no error, and the same payload.
\<close>

theorem CommitAndPush_note_round_trip:
  assumes clone: "Clone mem_env r conf s0 = (Inr c, s1)"
    and run: "CommitAndPush mem_env c a (Some n) au s = (None, s')"
  shows "noted (world s') = ((realNotesRef c, HEAD (world s')), n) # noted (world s) \<and>
         HEAD (world s') = commit_Message (effective c a) @ ''^'' @ HEAD (world s) \<and>
         E_commit (Dir c) (effective c a) None \<in> set (events s s') \<and>
         E_addNote (Dir c) (HEAD (world s')) (NotesRef (config c)) n None \<in> set (events s s') \<and>
         fst (GetNote mem_env c (HEAD (world s')) s') = (True, None, Some n)"
  using run
proof (cases rule: CommitAndPush_cases)
  case (pushed rv ok err p w5 w6)
  let ?w1 = "staged_world mem_env c au (world s)"
  let ?w3 = "committed_world mem_env c a au (world s)"
  have ref: "realNotesRef c = full_notes_ref (NotesRef (config c))"
    using Clone_mem_checkout[OF clone] by simp
  have w3: "?w3 = ?w1\<lparr>HEAD := commit_Message (effective c a) @ ''^'' @ HEAD ?w1,
                       dirty := [], index := []\<rparr>"
    using pushed(8) by (rule mem_commit_ok)
  from pushed(9) obtain w4 where
    hd: "op_refRevision mem_env (Dir c) ''HEAD'' ?w3 = (Inr rv, w4)"
    and an: "op_addNote mem_env (Dir c) rv (NotesRef (config c)) n w4 = (None, w5)"
    by blast
  have rv: "rv = commit_Message (effective c a) @ ''^'' @ HEAD (world s)" and w4: "w4 = ?w3"
    using mem_refRevision_ok[OF hd] w3 by (simp_all add: mem_staged_world)
  have w5: "w5 = ?w3\<lparr>noted := ((realNotesRef c, rv), n) # noted (world s)\<rparr>"
    using mem_addNote_ok[OF an] w4 w3 ref by (simp add: mem_staged_world)
  have w6: "w6 = w5"
    using pushed(5) by (rule mem_refExists_world)
  have "p = None"
    using pushed(2) by (cases p) simp_all
  then have final: "world s' = w5\<lparr>pushed := pushed w5 @
      [(URL (upstream c), Branch (config c) # (if ok then [realNotesRef c] else []))]\<rparr>"
    using mem_push_ok[of "Dir c" _ _ w6 "world s'"] pushed(6) w6 by simp
  have head: "HEAD (world s') = rv"
    using final w5 w3 rv by (simp add: mem_staged_world)
  have store: "noted (world s') = ((realNotesRef c, rv), n) # noted (world s)"
    using final w5 by simp
  have "fst (GetNote mem_env c rv s') = (True, None, Some n)"
    using store ref
    by (simp add: GetNote_def getNote_def mem_env_def mem_getNote_def full_notes_ref_idem
        split: prod.splits)
  moreover have "E_commit (Dir c) (effective c a) None \<in> set (events s s')"
    and "E_addNote (Dir c) rv (NotesRef (config c)) n None \<in> set (events s s')"
    using pushed(3) by (simp_all add: noting_def)
  ultimately show ?thesis
    using head store rv by simp
qed simp_all

theorem CommitAndPush_note_round_trip_witness:
  "fst clone_run = Inr checkout0 \<and>
   fst noted_run = None \<and>
   realNotesRef checkout0 = ''refs/notes/flux'' \<and>
   noted (world (snd noted_run)) = [((''refs/notes/flux'', rev1), ''release-2'')] \<and>
   HEAD (world (snd noted_run)) = rev1 \<and>
   E_addNote working_dir rev1 ''flux'' ''release-2'' None \<in>
     set (events (start world1) (snd noted_run)) \<and>
   fst (GetNote mem_env checkout0 rev1 (snd noted_run)) = (True, None, Some ''release-2'')"
  using CommitAndPush_note_round_trip[OF run_Clone run_noted]
  by (simp add: clone_run_def noted_run_def run_Clone run_noted)
     (simp add: checkout0_def conf0_def world1_def world0_def)

section \<open>The read-only error\<close>








end
